theory Spec2Isabelle
  imports Complex_Main
begin

section \<open>Python values used by Audio\_to\_Text.py\<close>

text \<open>
  A Python \<open>str\<close> is a sequence of Unicode code points; it is modelled as the list of
  their numbers, so that \<open>str.strip\<close> and the non-ASCII characters of the user
  interface texts are what they are in Python. \<open>lit\<close> embeds an ASCII literal.
  \<open>bytes\<close> is a list of 8-bit characters.
\<close>

type_synonym pystr = "nat list"

type_synonym bytes = "char list"

definition lit :: "string \<Rightarrow> pystr" where
  "lit s = map of_char s"

text \<open>\<open>str(n)\<close> for a Python int: decimal digits, with a minus sign when negative.\<close>

fun digits :: "nat \<Rightarrow> pystr" where
  "digits n = (if n < 10 then [48 + n] else digits (n div 10) @ [48 + n mod 10])"

declare digits.simps [simp del]

definition str_int :: "int \<Rightarrow> pystr" where
  "str_int i = (if i < 0 then 45 # digits (nat (- i)) else digits (nat i))"

text \<open>
  The format specifications \<open>:02\<close> and \<open>:02d\<close> applied to an int: minimum width 2,
  filled with zeros between the sign and the digits.
\<close>

definition zfill :: "nat \<Rightarrow> pystr \<Rightarrow> pystr" where
  "zfill w s = replicate (w - length s) 48 @ s"

definition format_02 :: "int \<Rightarrow> pystr" where
  "format_02 i = (if i < 0 then 45 # zfill 1 (digits (nat (- i))) else zfill 2 (digits (nat i)))"

text \<open>
  Segment times are Python numbers (floats in Whisper's output). They are modelled by
  their exact rational value: for a finite value \<open>x\<close> with \<open>0 \<le> x < 2^53\<close>, Python's
  \<open>x // 60\<close> is \<open>floor (x / 60)\<close> and \<open>x % 60\<close> is \<open>x - 60 * floor (x / 60)\<close>, both exact.
  \<open>int()\<close> truncates towards zero. Only the positive literal 60 is ever the divisor.
\<close>

definition py_floordiv :: "rat \<Rightarrow> rat \<Rightarrow> rat" where
  "py_floordiv x y = of_int \<lfloor>x / y\<rfloor>"

definition py_mod :: "rat \<Rightarrow> rat \<Rightarrow> rat" where
  "py_mod x y = x - y * of_int \<lfloor>x / y\<rfloor>"

definition py_int :: "rat \<Rightarrow> int" where
  "py_int x = (if 0 \<le> x then \<lfloor>x\<rfloor> else \<lceil>x\<rceil>)"

text \<open>
  \<open>str.isspace\<close> on one code point (the white-space table of CPython) and
  \<open>str.strip()\<close> without argument.
\<close>

definition isspace :: "nat \<Rightarrow> bool" where
  "isspace c \<longleftrightarrow>
     (9 \<le> c \<and> c \<le> 13) \<or> (28 \<le> c \<and> c \<le> 32) \<or> c = 0x85 \<or> c = 0xA0 \<or> c = 0x1680 \<or>
     (0x2000 \<le> c \<and> c \<le> 0x200A) \<or> c = 0x2028 \<or> c = 0x2029 \<or> c = 0x202F \<or>
     c = 0x205F \<or> c = 0x3000"

definition strip :: "pystr \<Rightarrow> pystr" where
  "strip s = rev (dropWhile isspace (rev (dropWhile isspace s)))"

section \<open>The data returned by the speech model\<close>

record segment =
  seg_start :: rat
  seg_end :: rat
  seg_text :: pystr

text \<open>
  The dictionary returned by \<open>model.transcribe\<close>: keys \<open>"text"\<close> and \<open>"segments"\<close> are read
  with \<open>result[...]\<close>, key \<open>"language"\<close> with \<open>result.get\<close>, so it may be absent.
\<close>

record result =
  res_text :: pystr
  res_language :: "pystr option"
  res_segments :: "segment list"

record uploaded_file =
  up_name :: pystr
  up_getvalue :: bytes

section \<open>Subtitle output (lines 153 to 158)\<close>

text \<open>
  One time value as the f-string of line 158 renders it:
  \<open>{int(t//60):02}:{int(t%60):02}:00\<close>.
\<close>

definition srt_time :: "rat \<Rightarrow> pystr" where
  "srt_time t =
     format_02 (py_int (py_floordiv t 60)) @ lit '':'' @ format_02 (py_int (py_mod t 60)) @ lit '':00''"

text \<open>The text appended to \<open>srt_output\<close> by one iteration of the loop.\<close>

definition srt_block :: "int \<Rightarrow> segment \<Rightarrow> pystr" where
  "srt_block i seg =
     (let start = seg_start seg;
          end_t = seg_end seg;
          text = strip (seg_text seg)
      in str_int i @ [10] @ srt_time start @ lit '' --> '' @ srt_time end_t @ [10] @ text @ [10, 10])"

text \<open>
  The loop \<open>for i, seg in enumerate(result["segments"], 1): srt_output += ...\<close>,
  with the counter and the accumulator as arguments.
\<close>

fun srt_loop :: "int \<Rightarrow> segment list \<Rightarrow> pystr \<Rightarrow> pystr" where
  "srt_loop i [] srt_output = srt_output"
| "srt_loop i (seg # segs) srt_output = srt_loop (i + 1) segs (srt_output @ srt_block i seg)"

definition to_subtitle_text :: "result \<Rightarrow> pystr" where
  "to_subtitle_text result = srt_loop 1 (res_segments result) []"

text \<open>The data of the plain-text download (line 146).\<close>

definition to_plain_text :: "result \<Rightarrow> pystr" where
  "to_plain_text result = res_text result"

text \<open>One line of the on-screen segment view (lines 172 to 174).\<close>

definition view_time :: "rat \<Rightarrow> pystr" where
  "view_time t = str_int (py_int (py_floordiv t 60)) @ lit '':'' @ format_02 (py_int (py_mod t 60))"

definition segment_markdown :: "segment \<Rightarrow> pystr" where
  "segment_markdown seg =
     (let start_time = view_time (seg_start seg);
          end_time = view_time (seg_end seg)
      in lit ''**['' @ start_time @ lit '' - '' @ end_time @ lit '']** '' @ seg_text seg)"

section \<open>Sidebar settings (lines 25 to 72)\<close>



definition model_options :: "pystr list" where
  "model_options = [lit ''tiny'', lit ''base'', lit ''small'', lit ''medium'', lit ''large'']"

text \<open>The dictionary \<open>languages\<close>, in insertion order; the value \<open>None\<close> is Python's.\<close>

definition languages :: "(pystr \<times> pystr option) list" where
  "languages =
     [(lit ''Auto-detect'', None),
      (lit ''English'', Some (lit ''en'')),
      (lit ''Spanish'', Some (lit ''es'')),
      (lit ''French'', Some (lit ''fr'')),
      (lit ''German'', Some (lit ''de'')),
      (lit ''Italian'', Some (lit ''it'')),
      (lit ''Portuguese'', Some (lit ''pt'')),
      (lit ''Dutch'', Some (lit ''nl'')),
      (lit ''Russian'', Some (lit ''ru'')),
      (lit ''Chinese'', Some (lit ''zh'')),
      (lit ''Japanese'', Some (lit ''ja'')),
      (lit ''Korean'', Some (lit ''ko'')),
      (lit ''Arabic'', Some (lit ''ar'')),
      (lit ''Hindi'', Some (lit ''hi'')),
      (lit ''Turkish'', Some (lit ''tr'')),
      (lit ''Polish'', Some (lit ''pl'')),
      (lit ''Swedish'', Some (lit ''sv'')),
      (lit ''Danish'', Some (lit ''da'')),
      (lit ''Norwegian'', Some (lit ''no'')),
      (lit ''Finnish'', Some (lit ''fi''))]"

record settings =
  model_size :: pystr
  selected_language :: pystr
  translate_to_english :: bool



text \<open>
  \<open>languages[selected_language]\<close> (line 109). A missing key raises \<open>KeyError\<close>, whose
  message is the key in quotes; the select box never produces one.
\<close>

definition language_code_of :: "pystr \<Rightarrow> pystr + pystr option" where
  "language_code_of sel =
     (case map_of languages sel of
        None \<Rightarrow> Inl ([39] @ sel @ [39])
      | Some code \<Rightarrow> Inr code)"

text \<open>\<open>"translate" if translate_to_english else "transcribe"\<close> (line 110).\<close>

definition task_type_of :: "bool \<Rightarrow> pystr" where
  "task_type_of translate = (if translate then lit ''translate'' else lit ''transcribe'')"

section \<open>The world outside the script\<close>

text \<open>
  A loaded model is an opaque object; its identity is the number it carries.
\<close>

datatype handle = Handle nat

text \<open>
  Everything the script calls and everything it shows, in the order it happens. An
  exception is modelled by its message, the text that \<open>{e}\<close> renders.
\<close>

datatype event =
    LoadModel pystr
  | CreateTemp pystr
  | WriteTemp pystr
  | Transcribe handle pystr "pystr option" pystr
  | Unlink pystr
  | Spinner pystr
  | Success pystr
  | Info pystr
  | Subheader pystr
  | TextArea pystr pystr
  | DownloadButton pystr pystr pystr pystr
  | Expander pystr
  | Markdown pystr
  | Error pystr

text \<open>
  The outcome of each external call is a parameter: \<open>whisper.load_model\<close>,
  \<open>model.transcribe\<close> (which reads the file at the path it is given),
  \<open>Path(name).suffix\<close>, the name \<open>tempfile\<close> picks for a suffix, whether writing the
  upload fails (and what is on disk then), whether \<open>os.unlink\<close> fails, and
  \<open>str.upper\<close>. \<open>Inl\<close> is a raised exception.
\<close>

record env =
  load_model :: "pystr \<Rightarrow> pystr + handle"
  transcribe :: "handle \<Rightarrow> bytes option \<Rightarrow> pystr option \<Rightarrow> pystr \<Rightarrow> pystr + result"
  path_suffix :: "pystr \<Rightarrow> pystr"
  temp_name :: "pystr \<Rightarrow> pystr + pystr"
  write_error :: "(pystr \<times> bytes) option"
  unlink_error :: "pystr option"
  upper :: "pystr \<Rightarrow> pystr"

text \<open>
  The state of the process: the store behind \<open>@st.cache_resource\<close>, the files on disk,
  and the log of events.
\<close>

record state =
  cache :: "pystr \<rightharpoonup> handle"
  files :: "pystr \<rightharpoonup> bytes"
  log :: "event list"

definition emit :: "event \<Rightarrow> state \<Rightarrow> state" where
  "emit e st = st\<lparr>log := log st @ [e]\<rparr>"

section \<open>Model cache (lines 77 to 81)\<close>

text \<open>
  Modelled from the spec: the decorator \<open>@st.cache_resource\<close> is Streamlit's and its
  implementation is not part of the sources; section 4.1 of the specification gives its
  contract. A call whose argument has an entry in the store returns the stored handle and
  does not run the body; otherwise the body \<open>whisper.load_model(model_size)\<close> runs, its
  return value is stored under the argument and returned, and an exception raised by the
  body propagates and stores nothing.
\<close>

definition load_whisper_model :: "env \<Rightarrow> pystr \<Rightarrow> state \<Rightarrow> (pystr + handle) \<times> state" where
  "load_whisper_model env msize st =
     (case cache st msize of
        Some model \<Rightarrow> (Inr model, st)
      | None \<Rightarrow>
          (let st1 = emit (LoadModel msize) st
           in case load_model env msize of
                Inl e \<Rightarrow> (Inl e, st1)
              | Inr model \<Rightarrow> (Inr model, st1\<lparr>cache := (cache st1)(msize \<mapsto> model)\<rparr>)))"

section \<open>The run sequence (lines 97 to 178)\<close>

text \<open>
  \<open>tempfile.NamedTemporaryFile(delete=False, suffix=...)\<close> creates a new empty file under
  a name that is not in use; when no such name is found it raises \<open>FileExistsError\<close>.
\<close>

definition named_temporary_file :: "env \<Rightarrow> pystr \<Rightarrow> state \<Rightarrow> (pystr + pystr) \<times> state" where
  "named_temporary_file env suffix st =
     (let st1 = emit (CreateTemp suffix) st
      in case temp_name env suffix of
           Inl e \<Rightarrow> (Inl e, st1)
         | Inr p \<Rightarrow>
             (case files st1 p of
                Some old \<Rightarrow> (Inl (lit ''[Errno 17] No usable temporary file name found''), st1)
              | None \<Rightarrow> (Inr p, st1\<lparr>files := (files st1)(p \<mapsto> [])\<rparr>)))"

text \<open>
  \<open>tmp_file.write(uploaded_file.getvalue())\<close> and the end of the \<open>with\<close> block, which
  closes the file and, with \<open>delete=False\<close>, leaves it on disk also when writing raised.
\<close>

definition tmp_file_write :: "env \<Rightarrow> pystr \<Rightarrow> bytes \<Rightarrow> state \<Rightarrow> (pystr + unit) \<times> state" where
  "tmp_file_write env p data st =
     (let st1 = emit (WriteTemp p) st
      in case write_error env of
           Some (e, partial) \<Rightarrow> (Inl e, st1\<lparr>files := (files st1)(p \<mapsto> partial)\<rparr>)
         | None \<Rightarrow> (Inr (), st1\<lparr>files := (files st1)(p \<mapsto> data)\<rparr>))"

definition os_unlink :: "env \<Rightarrow> pystr \<Rightarrow> state \<Rightarrow> (pystr + unit) \<times> state" where
  "os_unlink env p st =
     (let st1 = emit (Unlink p) st
      in case unlink_error env of
           Some e \<Rightarrow> (Inl e, st1)
         | None \<Rightarrow> (Inr (), st1\<lparr>files := (files st1)(p := None)\<rparr>))"

text \<open>The results shown after the scratch file is removed (lines 124 to 174).\<close>

definition display_results :: "env \<Rightarrow> uploaded_file \<Rightarrow> result \<Rightarrow> event list" where
  "display_results env uploaded result =
     (let detected_lang =
            upper env (case res_language result of None \<Rightarrow> lit ''Unknown'' | Some l \<Rightarrow> l);
          srt_output = to_subtitle_text result
      in [Success ([0x2705] @ lit '' Transcription completed successfully!''),
          Info (lit ''**Detected Language:** '' @ detected_lang),
          Subheader ([0x1F4DD] @ lit '' Transcription Output''),
          TextArea (lit ''Transcribed Text'') (res_text result),
          DownloadButton ([0x1F4E5] @ lit '' Download as TXT'') (to_plain_text result)
            (up_name uploaded @ lit ''_transcription.txt'') (lit ''text/plain''),
          DownloadButton ([0x1F3AC] @ lit '' Download as SRT'') srt_output
            (up_name uploaded @ lit ''_subtitles.srt'') (lit ''text/plain''),
          Expander ([0x1F50D] @ lit '' View Segments with Timestamps'')]
         @ map (\<lambda>seg. Markdown (segment_markdown seg)) (res_segments result))"

text \<open>The \<open>except Exception as e\<close> clause (lines 176 to 178).\<close>

definition except_handler :: "pystr \<Rightarrow> state \<Rightarrow> state" where
  "except_handler e st =
     emit (Info (lit ''Try reinstalling dependencies: `pip install openai-whisper streamlit`''))
       (emit (Error ([0x274C] @ lit '' An error occurred during processing: '' @ e)) st)"

text \<open>
  The \<open>try\<close> block of the button's action (lines 98 to 174): each statement either
  raises, which ends the block with the exception, or passes its state on.
\<close>

definition try_block :: "env \<Rightarrow> settings \<Rightarrow> uploaded_file \<Rightarrow> state \<Rightarrow> (pystr + unit) \<times> state" where
  "try_block env cfg uploaded st0 =
     (case load_whisper_model env (model_size cfg) (emit (Spinner (lit ''Loading Whisper model...'')) st0) of
        (Inl e, st1) \<Rightarrow> (Inl e, st1)
      | (Inr model, st1) \<Rightarrow>
     (case named_temporary_file env (path_suffix env (up_name uploaded)) st1 of
        (Inl e, st2) \<Rightarrow> (Inl e, st2)
      | (Inr tmp_path, st2) \<Rightarrow>
     (case tmp_file_write env tmp_path (up_getvalue uploaded) st2 of
        (Inl e, st3) \<Rightarrow> (Inl e, st3)
      | (Inr u, st3) \<Rightarrow>
     (let st4 = emit (Spinner (lit ''Transcribing... this may take a few minutes '' @ [0x23F3])) st3
      in case language_code_of (selected_language cfg) of
        Inl e \<Rightarrow> (Inl e, st4)
      | Inr language_code \<Rightarrow>
     (let task_type = task_type_of (translate_to_english cfg);
          st5 = emit (Transcribe model tmp_path language_code task_type) st4
      in case transcribe env model (files st5 tmp_path) language_code task_type of
        Inl e \<Rightarrow> (Inl e, st5)
      | Inr result \<Rightarrow>
     (case os_unlink env tmp_path st5 of
        (Inl e, st6) \<Rightarrow> (Inl e, st6)
      | (Inr u, st6) \<Rightarrow> (Inr (), st6\<lparr>log := log st6 @ display_results env uploaded result\<rparr>)))))))"

text \<open>
  The button's action: the \<open>try\<close> block with its \<open>except Exception\<close> clause. The state
  returned is the state in which the script goes on to the footer.
\<close>

definition transcribe_audio :: "env \<Rightarrow> settings \<Rightarrow> uploaded_file \<Rightarrow> state \<Rightarrow> state" where
  "transcribe_audio env cfg uploaded st0 =
     (case try_block env cfg uploaded st0 of
        (Inl e, st1) \<Rightarrow> except_handler e st1
      | (Inr u, st1) \<Rightarrow> st1)"

section \<open>Observations on a run\<close>

text \<open>The events a run added to the log.\<close>

definition events_since :: "state \<Rightarrow> state \<Rightarrow> event list" where
  "events_since st0 st = drop (length (log st0)) (log st)"

text \<open>The texts of the error notices among some events.\<close>

fun error_texts :: "event list \<Rightarrow> pystr list" where
  "error_texts [] = []"
| "error_texts (Error m # evs) = m # error_texts evs"
| "error_texts (ev # evs) = error_texts evs"

text \<open>The data offered by the download buttons carrying a given label.\<close>

fun download_data :: "pystr \<Rightarrow> event list \<Rightarrow> pystr list" where
  "download_data label [] = []"
| "download_data label (DownloadButton l d f m # evs) =
     (if l = label then d # download_data label evs else download_data label evs)"
| "download_data label (ev # evs) = download_data label evs"

text \<open>The external steps of the run sequence, and how often a run attempted each.\<close>

datatype step = LoadStep | CreateStep | WriteStep | TranscribeStep | UnlinkStep

fun step_of :: "event \<Rightarrow> step option" where
  "step_of (LoadModel s) = Some LoadStep"
| "step_of (CreateTemp s) = Some CreateStep"
| "step_of (WriteTemp p) = Some WriteStep"
| "step_of (Transcribe m p l t) = Some TranscribeStep"
| "step_of (Unlink p) = Some UnlinkStep"
| "step_of ev = None"

definition attempts :: "step \<Rightarrow> event list \<Rightarrow> nat" where
  "attempts s evs = length (filter (\<lambda>ev. step_of ev = Some s) evs)"

text \<open>The loads a call of \<open>load_whisper_model\<close> performs: one on a miss, none on a hit.\<close>

definition load_events :: "state \<Rightarrow> pystr \<Rightarrow> event list" where
  "load_events st msize = (case cache st msize of Some model \<Rightarrow> [] | None \<Rightarrow> [LoadModel msize])"

text \<open>The state after a sequence of further calls of \<open>load_whisper_model\<close>.\<close>

fun after_calls :: "(env \<times> pystr) list \<Rightarrow> state \<Rightarrow> state" where
  "after_calls [] st = st"
| "after_calls ((env, msize) # cs) st = after_calls cs (snd (load_whisper_model env msize st))"

text \<open>The text of the notice the \<open>except\<close> clause shows for an exception.\<close>

definition failure_notice :: "pystr \<Rightarrow> pystr" where
  "failure_notice e = [0x274C] @ lit '' An error occurred during processing: '' @ e"

text \<open>
  How far a run gets: the model is obtained (from the cache or by loading) and the scratch
  file is created under the name \<open>p\<close>; moreover the upload is written to it and the
  language selection is looked up, so that the model is invoked.
\<close>

definition scratch_created :: "env \<Rightarrow> settings \<Rightarrow> uploaded_file \<Rightarrow> state \<Rightarrow> handle \<Rightarrow> pystr \<Rightarrow> bool" where
  "scratch_created env cfg uploaded st0 model p \<longleftrightarrow>
     fst (load_whisper_model env (model_size cfg) st0) = Inr model \<and>
     temp_name env (path_suffix env (up_name uploaded)) = Inr p \<and>
     files st0 p = None"

definition model_invoked :: "env \<Rightarrow> settings \<Rightarrow> uploaded_file \<Rightarrow> state \<Rightarrow> handle \<Rightarrow> pystr \<Rightarrow> pystr option \<Rightarrow> bool" where
  "model_invoked env cfg uploaded st0 model p code \<longleftrightarrow>
     scratch_created env cfg uploaded st0 model p \<and>
     write_error env = None \<and>
     language_code_of (selected_language cfg) = Inr code"

text \<open>What the model is asked for and what it answers, once it is invoked.\<close>

definition model_answer :: "env \<Rightarrow> settings \<Rightarrow> uploaded_file \<Rightarrow> handle \<Rightarrow> pystr option \<Rightarrow> pystr + result" where
  "model_answer env cfg uploaded model code =
     transcribe env model (Some (up_getvalue uploaded)) code (task_type_of (translate_to_english cfg))"

section \<open>The subtitle format as the specification words it\<close>

text \<open>
  For each segment in order, starting at index 1, a block of four lines: the index, the
  time range, the segment text, and a blank separator. A line ends with a newline.
\<close>

definition unlines :: "pystr list \<Rightarrow> pystr" where
  "unlines ls = concat (map (\<lambda>l. l @ [10]) ls)"

definition block_lines :: "nat \<Rightarrow> segment \<Rightarrow> pystr list" where
  "block_lines n seg =
     [str_int (int n),
      srt_time (seg_start seg) @ lit '' --> '' @ srt_time (seg_end seg),
      strip (seg_text seg),
      []]"

definition spec_subtitle_blocks :: "segment list \<Rightarrow> pystr list list" where
  "spec_subtitle_blocks segs = map (\<lambda>k. block_lines (k + 1) (segs ! k)) [0..<length segs]"

text \<open>A text cut into its newline-terminated lines.\<close>

fun split_lines_acc :: "pystr \<Rightarrow> pystr \<Rightarrow> pystr list" where
  "split_lines_acc cur [] = (if cur = [] then [] else [cur])"
| "split_lines_acc cur (c # cs) =
     (if c = 10 then cur # split_lines_acc [] cs else split_lines_acc (cur @ [c]) cs)"

definition split_lines :: "pystr \<Rightarrow> pystr list" where
  "split_lines s = split_lines_acc [] s"

section \<open>Sample inputs\<close>

definition sample_segments :: "segment list" where
  "sample_segments = [\<lparr>seg_start = 65, seg_end = 70, seg_text = lit ''hi''\<rparr>]"

definition sample_result :: result where
  "sample_result = \<lparr>res_text = lit ''hi'', res_language = Some (lit ''en''), res_segments = sample_segments\<rparr>"

definition silent_result :: result where
  "silent_result = \<lparr>res_text = [], res_language = Some (lit ''en''), res_segments = []\<rparr>"

definition spoken_segments :: "segment list" where
  "spoken_segments =
     [\<lparr>seg_start = 0, seg_end = 5 / 2, seg_text = lit '' Hello''\<rparr>,
      \<lparr>seg_start = 5 / 2, seg_end = 3725, seg_text = lit '' world ''\<rparr>]"

definition spoken_result :: result where
  "spoken_result =
     \<lparr>res_text = lit '' Hello world '', res_language = None, res_segments = spoken_segments\<rparr>"


definition sample_upload :: uploaded_file where
  "sample_upload = \<lparr>up_name = lit ''talk.wav'', up_getvalue = ''RIFF''\<rparr>"

definition sample_settings :: settings where
  "sample_settings =
     \<lparr>model_size = lit ''base'', selected_language = lit ''French'', translate_to_english = True\<rparr>"

text \<open>
  A world in which the five model sizes load, any other size is refused, and every other
  call succeeds.
\<close>

definition sample_env :: env where
  "sample_env =
     \<lparr>load_model = (\<lambda>s. if s \<in> set model_options then Inr (Handle (length s))
                         else Inl (lit ''Model not found'')),
      transcribe = (\<lambda>model file language task.
                      case file of None \<Rightarrow> Inl (lit ''No such file'') | Some b \<Rightarrow> Inr sample_result),
      path_suffix = (\<lambda>name. lit ''.wav''),
      temp_name = (\<lambda>suffix. Inr (lit ''/tmp/tmpa1'' @ suffix)),
      write_error = None,
      unlink_error = None,
      upper = (\<lambda>s. map (\<lambda>c. if 97 \<le> c \<and> c \<le> 122 then c - 32 else c) s)\<rparr>"

text \<open>Worlds in which one step fails, and one in which the audio is silent.\<close>

definition full_disk_env :: env where
  "full_disk_env = sample_env\<lparr>write_error := Some (lit ''No space left on device'', ''RI'')\<rparr>"

definition bad_audio_env :: env where
  "bad_audio_env = sample_env\<lparr>transcribe := (\<lambda>model file language task. Inl (lit ''Invalid data found''))\<rparr>"

definition locked_env :: env where
  "locked_env = sample_env\<lparr>unlink_error := Some (lit ''Permission denied'')\<rparr>"

definition silent_env :: env where
  "silent_env = sample_env\<lparr>transcribe := (\<lambda>model file language task. Inr silent_result)\<rparr>"

definition unsupported_settings :: settings where
  "unsupported_settings = sample_settings\<lparr>model_size := lit ''huge''\<rparr>"

definition sample_state :: state where
  "sample_state = \<lparr>cache = Map.empty, files = Map.empty, log = []\<rparr>"

section \<open>The subtitle loop\<close>

lemma srt_block_unlines: "srt_block (int n) seg = unlines (block_lines n seg)"
  by (simp add: srt_block_def block_lines_def unlines_def)

lemma blocks_shift:
  "map (\<lambda>k. block_lines (n + k + 1) ((seg # segs) ! k)) [0..<Suc (length segs)]
   = block_lines (n + 1) seg # map (\<lambda>k. block_lines (Suc n + k + 1) (segs ! k)) [0..<length segs]"
proof -
  have "[0..<Suc (length segs)] = 0 # map Suc [0..<length segs]"
    by (simp add: upt_conv_Cons map_Suc_upt del: upt_Suc)
  then show ?thesis by (simp add: comp_def del: upt_Suc)
qed

lemma srt_loop_blocks:
  "srt_loop (int n + 1) segs acc =
   acc @ concat (map unlines (map (\<lambda>k. block_lines (n + k + 1) (segs ! k)) [0..<length segs]))"
proof (induction segs arbitrary: n acc)
  case Nil
  show ?case by simp
next
  case (Cons seg segs)
  have step: "srt_loop (int n + 1) (seg # segs) acc =
              srt_loop (int (Suc n) + 1) segs (acc @ srt_block (int (n + 1)) seg)"
    by (simp add: add.commute)
  show ?case
    unfolding step Cons.IH length_Cons blocks_shift
    using srt_block_unlines[of "n + 1" seg] by simp
qed

subsection \<open>No rendered number contains a newline\<close>

lemma digits_range: "c \<in> set (digits n) \<Longrightarrow> 48 \<le> c \<and> c \<le> 57"
proof (induction n rule: digits.induct)
  case (1 n)
  show ?case
  proof (cases "n < 10")
    case True
    with "1.prems" show ?thesis by (simp add: digits.simps[of n])
  next
    case False
    have "n mod 10 < 10" by simp
    with False "1.prems" "1.IH" show ?thesis
      by (auto simp add: digits.simps[of n])
  qed
qed

lemma digits_no_newline: "10 \<notin> set (digits n)"
  using digits_range[of 10 n] by auto

lemma str_int_no_newline: "10 \<notin> set (str_int i)"
  by (simp add: str_int_def digits_no_newline)

lemma format_02_no_newline: "10 \<notin> set (format_02 i)"
  by (simp add: format_02_def zfill_def digits_no_newline)

lemma srt_time_no_newline: "10 \<notin> set (srt_time t)"
  by (simp add: srt_time_def format_02_no_newline lit_def)

lemma block_lines_no_newline:
  "10 \<notin> set (strip (seg_text seg)) \<Longrightarrow> l \<in> set (block_lines n seg) \<Longrightarrow> 10 \<notin> set l"
  by (auto simp add: block_lines_def str_int_no_newline srt_time_no_newline lit_def)

subsection \<open>Cutting a text into lines\<close>

lemma split_line_step:
  "10 \<notin> set l \<Longrightarrow> split_lines_acc cur (l @ 10 # rest) = (cur @ l) # split_lines_acc [] rest"
  by (induction l arbitrary: cur) auto

lemma split_unlines:
  "\<forall>l \<in> set ls. 10 \<notin> set l \<Longrightarrow> split_lines_acc [] (unlines ls @ rest) = ls @ split_lines_acc [] rest"
proof (induction ls)
  case Nil
  show ?case by (simp add: unlines_def)
next
  case (Cons l ls)
  then have l: "10 \<notin> set l" and ls: "\<forall>l \<in> set ls. 10 \<notin> set l" by simp_all
  have "unlines (l # ls) @ rest = l @ 10 # (unlines ls @ rest)"
    by (simp add: unlines_def)
  then show ?case using split_line_step[OF l, of "[]"] Cons.IH[OF ls] by simp
qed

lemma concat_unlines: "concat (map unlines bs) = unlines (concat bs)"
  by (induction bs) (simp_all add: unlines_def)

section \<open>The run sequence\<close>

lemmas step_defs = load_whisper_model_def named_temporary_file_def tmp_file_write_def
  os_unlink_def emit_def load_events_def Let_def

subsection \<open>Lists of events\<close>

lemma error_texts_append: "error_texts (xs @ ys) = error_texts xs @ error_texts ys"
  by (induction xs rule: error_texts.induct) simp_all

lemma download_data_append: "download_data l (xs @ ys) = download_data l xs @ download_data l ys"
  by (induction l xs rule: download_data.induct) simp_all

lemma error_texts_markdown: "error_texts (map (\<lambda>seg. Markdown (f seg)) segs) = []"
  by (induction segs) simp_all

lemma download_data_markdown: "download_data l (map (\<lambda>seg. Markdown (f seg)) segs) = []"
  by (induction segs) simp_all

lemma error_texts_display: "error_texts (display_results env up r) = []"
  by (simp add: display_results_def Let_def error_texts_markdown)

lemma attempts_append: "attempts s (xs @ ys) = attempts s xs + attempts s ys"
  by (simp add: attempts_def)

lemma attempts_display: "attempts s (display_results env up r) = 0"
  by (simp add: display_results_def Let_def attempts_def)

lemma attempts_load_events: "attempts s (load_events st sz) \<le> (if s = LoadStep then 1 else 0)"
  by (simp add: load_events_def attempts_def split: option.splits)

lemma error_texts_load_events: "error_texts (load_events st sz) = []"
  by (simp add: load_events_def split: option.splits)

subsection \<open>The model cache\<close>

lemma load_fst_emit: "fst (load_whisper_model env sz (emit ev st)) = fst (load_whisper_model env sz st)"
  by (simp add: step_defs split: option.splits sum.splits)

lemma load_hit: "cache st sz = Some h \<Longrightarrow> load_whisper_model env sz st = (Inr h, st)"
  by (simp add: load_whisper_model_def)

lemma load_keeps_entry:
  "cache st sz = Some h \<Longrightarrow> cache (snd (load_whisper_model env sz' st)) sz = Some h"
  by (auto simp add: step_defs split: option.splits sum.splits)

lemma after_calls_keeps_entry: "cache st sz = Some h \<Longrightarrow> cache (after_calls cs st) sz = Some h"
proof (induction cs arbitrary: st)
  case Nil
  then show ?case by simp
next
  case (Cons c cs)
  obtain env sz' where c: "c = (env, sz')" by (cases c)
  show ?case using Cons.IH[OF load_keeps_entry[OF Cons.prems, of env sz']] by (simp add: c)
qed

subsection \<open>Outcomes of the try block\<close>

lemma run_success:
  assumes "fst (load_whisper_model env (model_size cfg) st0) = Inr model"
    and "temp_name env (path_suffix env (up_name up)) = Inr p" and "files st0 p = None"
    and "write_error env = None"
    and "language_code_of (selected_language cfg) = Inr code"
    and "transcribe env model (Some (up_getvalue up)) code (task_type_of (translate_to_english cfg)) = Inr result"
    and "unlink_error env = None"
  shows "fst (try_block env cfg up st0) = Inr ()"
    and "log (snd (try_block env cfg up st0)) =
         log st0 @ [Spinner (lit ''Loading Whisper model...'')] @ load_events st0 (model_size cfg)
         @ [CreateTemp (path_suffix env (up_name up)), WriteTemp p,
            Spinner (lit ''Transcribing... this may take a few minutes '' @ [0x23F3]),
            Transcribe model p code (task_type_of (translate_to_english cfg)), Unlink p]
         @ display_results env up result"
    and "files (snd (try_block env cfg up st0)) p = None"
  using assms
  by (auto simp add: try_block_def step_defs split: option.splits sum.splits)

lemma success_inv:
  assumes "fst (try_block env cfg up st0) = Inr ()"
  shows "\<exists>model p code result.
           fst (load_whisper_model env (model_size cfg) st0) = Inr model
         \<and> temp_name env (path_suffix env (up_name up)) = Inr p \<and> files st0 p = None
         \<and> write_error env = None
         \<and> language_code_of (selected_language cfg) = Inr code
         \<and> transcribe env model (Some (up_getvalue up)) code (task_type_of (translate_to_english cfg)) = Inr result
         \<and> unlink_error env = None"
  using assms
  by (auto simp add: try_block_def step_defs split: option.splits sum.splits prod.splits)

lemma run_load_raises:
  assumes "fst (load_whisper_model env (model_size cfg) st0) = Inl e"
  shows "fst (try_block env cfg up st0) = Inl e"
    and "log (snd (try_block env cfg up st0)) =
         log st0 @ [Spinner (lit ''Loading Whisper model...''), LoadModel (model_size cfg)]"
    and "files (snd (try_block env cfg up st0)) = files st0"
  using assms
  by (auto simp add: try_block_def step_defs split: option.splits sum.splits)

lemma run_write_raises:
  assumes "fst (load_whisper_model env (model_size cfg) st0) = Inr model"
    and "temp_name env (path_suffix env (up_name up)) = Inr p" and "files st0 p = None"
    and "write_error env = Some (e, partial)"
  shows "fst (try_block env cfg up st0) = Inl e"
    and "log (snd (try_block env cfg up st0)) =
         log st0 @ [Spinner (lit ''Loading Whisper model...'')] @ load_events st0 (model_size cfg)
         @ [CreateTemp (path_suffix env (up_name up)), WriteTemp p]"
    and "files (snd (try_block env cfg up st0)) p = Some partial"
  using assms
  by (auto simp add: try_block_def step_defs split: option.splits sum.splits)

lemma run_transcribe_raises:
  assumes "fst (load_whisper_model env (model_size cfg) st0) = Inr model"
    and "temp_name env (path_suffix env (up_name up)) = Inr p" and "files st0 p = None"
    and "write_error env = None"
    and "language_code_of (selected_language cfg) = Inr code"
    and "transcribe env model (Some (up_getvalue up)) code (task_type_of (translate_to_english cfg)) = Inl e"
  shows "fst (try_block env cfg up st0) = Inl e"
    and "log (snd (try_block env cfg up st0)) =
         log st0 @ [Spinner (lit ''Loading Whisper model...'')] @ load_events st0 (model_size cfg)
         @ [CreateTemp (path_suffix env (up_name up)), WriteTemp p,
            Spinner (lit ''Transcribing... this may take a few minutes '' @ [0x23F3]),
            Transcribe model p code (task_type_of (translate_to_english cfg))]"
    and "files (snd (try_block env cfg up st0)) p = Some (up_getvalue up)"
  using assms
  by (auto simp add: try_block_def step_defs split: option.splits sum.splits)

lemma run_unlink_raises:
  assumes "fst (load_whisper_model env (model_size cfg) st0) = Inr model"
    and "temp_name env (path_suffix env (up_name up)) = Inr p" and "files st0 p = None"
    and "write_error env = None"
    and "language_code_of (selected_language cfg) = Inr code"
    and "transcribe env model (Some (up_getvalue up)) code (task_type_of (translate_to_english cfg)) = Inr result"
    and "unlink_error env = Some e"
  shows "fst (try_block env cfg up st0) = Inl e"
    and "log (snd (try_block env cfg up st0)) =
         log st0 @ [Spinner (lit ''Loading Whisper model...'')] @ load_events st0 (model_size cfg)
         @ [CreateTemp (path_suffix env (up_name up)), WriteTemp p,
            Spinner (lit ''Transcribing... this may take a few minutes '' @ [0x23F3]),
            Transcribe model p code (task_type_of (translate_to_english cfg)), Unlink p]"
    and "files (snd (try_block env cfg up st0)) p = Some (up_getvalue up)"
  using assms
  by (auto simp add: try_block_def step_defs split: option.splits sum.splits)

text \<open>What the try block adds to the log, whatever its outcome.\<close>

lemma try_block_log:
  "\<exists>evs. log (snd (try_block env cfg up st0)) = log st0 @ evs
         \<and> (\<forall>s. attempts s evs \<le> 1)
         \<and> error_texts evs = []
         \<and> (\<forall>m p l t. Transcribe m p l t \<in> set evs \<longrightarrow>
               language_code_of (selected_language cfg) = Inr l \<and> t = task_type_of (translate_to_english cfg))"
  by (auto simp add: try_block_def step_defs attempts_def error_texts_append error_texts_display
        error_texts_markdown display_results_def
      split: option.splits sum.splits prod.splits)


section \<open>The formatter\<close>

lemma strip_unchanged_iff:
  "strip s = s \<longleftrightarrow> s = [] \<or> (\<not> isspace (hd s) \<and> \<not> isspace (last s))"
proof (cases "s = []")
  case True
  then show ?thesis by (simp add: strip_def)
next
  case False
  show ?thesis
  proof (cases "isspace (hd s)")
    case True
    have "length (strip s) \<le> length (dropWhile isspace s)"
      using length_dropWhile_le[of isspace "rev (dropWhile isspace s)"] by (simp add: strip_def)
    moreover have "length (dropWhile isspace s) < length s"
      using False True by (cases s) (simp_all add: length_dropWhile_le le_imp_less_Suc)
    ultimately have "strip s \<noteq> s" by auto
    with True False show ?thesis by simp
  next
    case nohd: False
    then have d: "dropWhile isspace s = s" using False by (cases s) simp_all
    have "strip s = s \<longleftrightarrow> dropWhile isspace (rev s) = rev s"
      unfolding strip_def d by (metis rev_rev_ident)
    also have "\<dots> \<longleftrightarrow> \<not> isspace (last s)"
      using False by (simp add: dropWhile_eq_self_iff hd_rev)
    finally show ?thesis using nohd False by simp
  qed
qed

lemma strip_decompose:
  "\<exists>a b. s = a @ strip s @ b \<and> (\<forall>c \<in> set a. isspace c) \<and> (\<forall>c \<in> set b. isspace c)"
proof -
  let ?d = "dropWhile isspace s"
  have 1: "s = takeWhile isspace s @ ?d" by simp
  have "rev (rev ?d) = rev (takeWhile isspace (rev ?d) @ dropWhile isspace (rev ?d))"
    by (simp only: takeWhile_dropWhile_id)
  then have "?d = rev (dropWhile isspace (rev ?d)) @ rev (takeWhile isspace (rev ?d))"
    by (simp only: rev_append rev_rev_ident)
  then have 3: "?d = strip s @ rev (takeWhile isspace (rev ?d))" by (simp add: strip_def)
  have "s = takeWhile isspace s @ strip s @ rev (takeWhile isspace (rev ?d))"
    using 1 3 by metis
  moreover have "\<forall>c \<in> set (takeWhile isspace s). isspace c" by (auto dest: set_takeWhileD)
  moreover have "\<forall>c \<in> set (rev (takeWhile isspace (rev ?d))). isspace c" by (auto dest: set_takeWhileD)
  ultimately show ?thesis by blast
qed

lemma strip_ends: "strip s \<noteq> [] \<Longrightarrow> \<not> isspace (hd (strip s)) \<and> \<not> isspace (last (strip s))"
proof -
  assume ne: "strip s \<noteq> []"
  let ?d = "dropWhile isspace s"
  let ?e = "dropWhile isspace (rev ?d)"
  have e: "?e \<noteq> []" using ne by (simp add: strip_def)
  have last: "\<not> isspace (hd ?e)" using e by (simp add: hd_dropWhile)
  have "?d \<noteq> []"
  proof
    assume "?d = []"
    then have "?e = []" by (simp only: rev.simps dropWhile.simps)
    with e show False by simp
  qed
  then have hd_d: "\<not> isspace (hd ?d)" by (simp add: hd_dropWhile)
  have "\<exists>pre. rev ?d = pre @ ?e" by (metis takeWhile_dropWhile_id)
  then obtain pre where "rev ?d = pre @ ?e" by blast
  then have "?d = rev ?e @ rev pre" by (metis rev_append rev_rev_ident)
  then have "hd ?d = hd (rev ?e)" using e by (metis hd_append2 rev_is_Nil_conv)
  with hd_d have "\<not> isspace (hd (strip s))" by (simp add: strip_def)
  moreover have "last (strip s) = hd ?e" using e by (simp add: strip_def last_rev)
  ultimately show ?thesis using last by simp
qed


lemma download_data_load_events: "download_data l (load_events st sz) = []"
  by (simp add: load_events_def split: option.splits)

lemma py_int_of_int: "py_int (of_int k) = k"
  by (simp add: py_int_def)

lemma py_mod_60_range: "0 \<le> py_mod t 60 \<and> py_mod t 60 < 60"
proof -
  have "of_int \<lfloor>t / 60\<rfloor> \<le> t / 60" and "t / 60 < of_int \<lfloor>t / 60\<rfloor> + 1"
    by linarith+
  then show ?thesis by (simp add: py_mod_def field_simps)
qed

text \<open>What line 158 renders for a time value: minutes, seconds, and a constant field.\<close>

lemma srt_time_fields:
  "srt_time t = format_02 \<lfloor>t / 60\<rfloor> @ [58] @ format_02 \<lfloor>t - 60 * of_int \<lfloor>t / 60\<rfloor>\<rfloor> @ [58, 48, 48]"
  using py_mod_60_range[of t]
  by (simp add: srt_time_def py_floordiv_def py_int_of_int lit_def) (simp add: py_int_def py_mod_def)

text \<open>
  C1. The rendering of a time value: for the segment from 65 to 70 seconds the code
  writes the minutes 01 into the first field, the seconds 05 into the second and the
  constant 00 into the third, so the start reads 01:05:00; an hour and two minutes and
  five seconds is rendered 62:05:00.
\<close>

theorem srt_time_sample_rendering:
  "to_subtitle_text sample_result = lit ''1\<newline>01:05:00 --> 01:10:00\<newline>hi\<newline>\<newline>''
   \<and> srt_time 65 = lit ''01:05:00''
   \<and> srt_time 65 \<noteq> lit ''00:01:05''
   \<and> srt_time 3725 = lit ''62:05:00''"
  by code_simp

text \<open>
  C2. The subtitle output is the concatenation, in input order, of one block per segment,
  the block of the k-th segment (counting from 1) being the four lines: k, the time
  range, the stripped text, and an empty line. When no stripped text contains a newline,
  cutting the output into lines gives exactly these lines.
\<close>

theorem subtitle_one_block_per_segment:
  "to_subtitle_text r = concat (map unlines (spec_subtitle_blocks (res_segments r)))
   \<and> length (spec_subtitle_blocks (res_segments r)) = length (res_segments r)
   \<and> (\<forall>k < length (res_segments r).
         spec_subtitle_blocks (res_segments r) ! k =
           [str_int (int k + 1),
            srt_time (seg_start (res_segments r ! k)) @ lit '' --> '' @ srt_time (seg_end (res_segments r ! k)),
            strip (seg_text (res_segments r ! k)),
            []])
   \<and> ((\<forall>seg \<in> set (res_segments r). 10 \<notin> set (strip (seg_text seg))) \<longrightarrow>
        split_lines (to_subtitle_text r) = concat (spec_subtitle_blocks (res_segments r)))"
proof -
  let ?segs = "res_segments r"
  have main: "to_subtitle_text r = concat (map unlines (spec_subtitle_blocks ?segs))"
    using srt_loop_blocks[of 0 ?segs "[]"]
    by (simp add: to_subtitle_text_def spec_subtitle_blocks_def)
  have len: "length (spec_subtitle_blocks ?segs) = length ?segs"
    by (simp add: spec_subtitle_blocks_def)
  have nth: "\<forall>k < length ?segs. spec_subtitle_blocks ?segs ! k =
           [str_int (int k + 1),
            srt_time (seg_start (?segs ! k)) @ lit '' --> '' @ srt_time (seg_end (?segs ! k)),
            strip (seg_text (?segs ! k)),
            []]"
    by (simp add: spec_subtitle_blocks_def block_lines_def add.commute)
  have lines: "split_lines (to_subtitle_text r) = concat (spec_subtitle_blocks ?segs)"
    if h: "\<forall>seg \<in> set ?segs. 10 \<notin> set (strip (seg_text seg))"
  proof -
    have "\<forall>l \<in> set (concat (spec_subtitle_blocks ?segs)). 10 \<notin> set l"
      using h by (auto simp add: spec_subtitle_blocks_def dest!: block_lines_no_newline[rotated])
    then show ?thesis
      using split_unlines[of "concat (spec_subtitle_blocks ?segs)" "[]"]
      by (simp add: main concat_unlines split_lines_def)
  qed
  from main len nth lines show ?thesis by blast
qed

theorem subtitle_one_block_per_segment_witness:
  "list_all (\<lambda>seg. 10 \<notin> set (strip (seg_text seg))) (res_segments spoken_result)
   \<and> length (spec_subtitle_blocks (res_segments spoken_result)) = 2
   \<and> split_lines (to_subtitle_text spoken_result) =
       [lit ''1'', lit ''00:00:00 --> 00:02:00'', lit ''Hello'', [],
        lit ''2'', lit ''00:02:00 --> 62:05:00'', lit ''world'', []]"
proof -
  have h: "\<forall>seg \<in> set (res_segments spoken_result). 10 \<notin> set (strip (seg_text seg))"
    by code_simp
  have v: "concat (spec_subtitle_blocks (res_segments spoken_result)) =
       [lit ''1'', lit ''00:00:00 --> 00:02:00'', lit ''Hello'', [],
        lit ''2'', lit ''00:02:00 --> 62:05:00'', lit ''world'', []]"
    by code_simp
  have n: "length (res_segments spoken_result) = 2"
    by (simp add: spoken_result_def spoken_segments_def)
  have s: "split_lines (to_subtitle_text spoken_result) =
           concat (spec_subtitle_blocks (res_segments spoken_result))"
    using subtitle_one_block_per_segment[of spoken_result] h by blast
  have l: "length (spec_subtitle_blocks (res_segments spoken_result)) =
           length (res_segments spoken_result)"
    using subtitle_one_block_per_segment[of spoken_result] by blast
  from h s[unfolded v] l[unfolded n] show ?thesis by (simp only: list_all_iff)
qed

text \<open>
  C3. The data of the plain-text download is the result's full text, unchanged.
\<close>

theorem plain_text_download_is_full_text:
  "download_data ([0x1F4E5] @ lit '' Download as TXT'') (display_results env up r) = [res_text r]
   \<and> to_plain_text r = res_text r"
  by (simp add: display_results_def Let_def download_data_markdown to_plain_text_def)


section \<open>Errors, cleanup and the arguments of the model\<close>

subsection \<open>The except clause\<close>

lemma transcribe_audio_raised:
  "fst (try_block env cfg up st0) = Inl e \<Longrightarrow>
   transcribe_audio env cfg up st0 = except_handler e (snd (try_block env cfg up st0))"
  by (cases "try_block env cfg up st0") (simp add: transcribe_audio_def)

lemma transcribe_audio_done:
  "fst (try_block env cfg up st0) = Inr u \<Longrightarrow>
   transcribe_audio env cfg up st0 = snd (try_block env cfg up st0)"
  by (cases "try_block env cfg up st0") (simp add: transcribe_audio_def)

lemma except_handler_log:
  "log (except_handler e st) =
   log st @ [Error (failure_notice e),
             Info (lit ''Try reinstalling dependencies: `pip install openai-whisper streamlit`'')]"
  by (simp add: except_handler_def emit_def failure_notice_def)

lemma except_handler_files: "files (except_handler e st) = files st"
  by (simp add: except_handler_def emit_def)

lemma events_since_append: "log st = log st0 @ evs \<Longrightarrow> events_since st0 st = evs"
  by (simp add: events_since_def)

lemma attempts_unlink_load_events: "attempts UnlinkStep (load_events st sz) = 0"
  by (simp add: load_events_def attempts_def split: option.splits)

lemma load_raises_miss:
  "fst (load_whisper_model env sz st) = Inl e \<Longrightarrow> cache st sz = None \<and> load_model env sz = Inl e"
  by (auto simp add: step_defs split: option.splits sum.splits)

text \<open>
  C6. Whatever exception the try block raises, the run ends normally with one error
  notice, the fixed text followed by the exception's message; this holds for a failing
  model load, scratch-file write, model invocation and scratch-file removal. No step is
  attempted more than once in a run.
\<close>

theorem errors_caught_at_boundary:
  "(fst (try_block env cfg up st0) = Inl e \<longrightarrow>
      log (transcribe_audio env cfg up st0) =
        log (snd (try_block env cfg up st0)) @
        [Error (failure_notice e),
         Info (lit ''Try reinstalling dependencies: `pip install openai-whisper streamlit`'')]
      \<and> error_texts (events_since st0 (transcribe_audio env cfg up st0)) = [failure_notice e])
   \<and> attempts s (events_since st0 (transcribe_audio env cfg up st0)) \<le> 1
   \<and> (fst (load_whisper_model env (model_size cfg) st0) = Inl e \<longrightarrow>
        fst (try_block env cfg up st0) = Inl e)
   \<and> (scratch_created env cfg up st0 model p \<and> write_error env = Some (e, partial) \<longrightarrow>
        fst (try_block env cfg up st0) = Inl e)
   \<and> (model_invoked env cfg up st0 model p code \<and> model_answer env cfg up model code = Inl e \<longrightarrow>
        fst (try_block env cfg up st0) = Inl e)
   \<and> (model_invoked env cfg up st0 model p code \<and> model_answer env cfg up model code = Inr result
        \<and> unlink_error env = Some e \<longrightarrow>
        fst (try_block env cfg up st0) = Inl e)"
proof -
  let ?tb = "try_block env cfg up st0"
  let ?final = "transcribe_audio env cfg up st0"
  obtain evs where L: "log (snd ?tb) = log st0 @ evs"
    and A: "\<forall>s. attempts s evs \<le> 1" and E: "error_texts evs = []"
    using try_block_log[of env cfg up st0] by blast
  have raised: "log ?final = log (snd ?tb) @
        [Error (failure_notice e),
         Info (lit ''Try reinstalling dependencies: `pip install openai-whisper streamlit`'')]
      \<and> error_texts (events_since st0 ?final) = [failure_notice e]"
    if r: "fst ?tb = Inl e"
  proof -
    have 1: "log ?final = log (snd ?tb) @
        [Error (failure_notice e),
         Info (lit ''Try reinstalling dependencies: `pip install openai-whisper streamlit`'')]"
      by (simp add: transcribe_audio_raised[OF r] except_handler_log)
    then have "events_since st0 ?final = evs @
        [Error (failure_notice e),
         Info (lit ''Try reinstalling dependencies: `pip install openai-whisper streamlit`'')]"
      by (simp add: L events_since_def)
    then show ?thesis using 1 E by (simp add: error_texts_append)
  qed
  have once: "attempts s (events_since st0 ?final) \<le> 1"
  proof (cases "fst ?tb")
    case (Inl e')
    have "events_since st0 ?final = evs @
        [Error (failure_notice e'),
         Info (lit ''Try reinstalling dependencies: `pip install openai-whisper streamlit`'')]"
      by (simp add: transcribe_audio_raised[OF Inl] except_handler_log L events_since_def)
    then show ?thesis using A by (simp add: attempts_def)
  next
    case (Inr u)
    have "events_since st0 ?final = evs"
      by (simp add: transcribe_audio_done[OF Inr] L events_since_def)
    then show ?thesis using A by simp
  qed
  have r_load: "fst ?tb = Inl e" if "fst (load_whisper_model env (model_size cfg) st0) = Inl e"
    using run_load_raises(1)[OF that] .
  have r_write: "fst ?tb = Inl e"
    if "scratch_created env cfg up st0 model p \<and> write_error env = Some (e, partial)"
    using that run_write_raises(1)[of env cfg st0 model up p e partial]
    by (simp add: scratch_created_def)
  have r_invoke: "fst ?tb = Inl e"
    if "model_invoked env cfg up st0 model p code \<and> model_answer env cfg up model code = Inl e"
    using that run_transcribe_raises(1)[of env cfg st0 model up p code e]
    by (simp add: scratch_created_def model_invoked_def model_answer_def)
  have r_unlink: "fst ?tb = Inl e"
    if "model_invoked env cfg up st0 model p code \<and> model_answer env cfg up model code = Inr result
        \<and> unlink_error env = Some e"
    using that run_unlink_raises(1)[of env cfg st0 model up p code result e]
    by (simp add: scratch_created_def model_invoked_def model_answer_def)
  from raised once r_load r_write r_invoke r_unlink show ?thesis by blast
qed

lemmas sample_defs = sample_env_def sample_settings_def sample_upload_def sample_state_def
  sample_result_def sample_segments_def silent_result_def full_disk_env_def bad_audio_env_def
  locked_env_def silent_env_def unsupported_settings_def model_options_def

lemma sample_load_refused:
  "fst (load_whisper_model sample_env (model_size unsupported_settings) sample_state) =
   Inl (lit ''Model not found'')"
  by (simp add: sample_defs step_defs lit_def)

lemma sample_scratch_created:
  "scratch_created sample_env sample_settings sample_upload sample_state
     (Handle 4) (lit ''/tmp/tmpa1.wav'')"
  "scratch_created full_disk_env sample_settings sample_upload sample_state
     (Handle 4) (lit ''/tmp/tmpa1.wav'')"
  "scratch_created bad_audio_env sample_settings sample_upload sample_state
     (Handle 4) (lit ''/tmp/tmpa1.wav'')"
  "scratch_created locked_env sample_settings sample_upload sample_state
     (Handle 4) (lit ''/tmp/tmpa1.wav'')"
  "scratch_created silent_env sample_settings sample_upload sample_state
     (Handle 4) (lit ''/tmp/tmpa1.wav'')"
  by (simp_all add: scratch_created_def sample_defs step_defs lit_def)

lemma sample_language: "language_code_of (selected_language sample_settings) = Inr (Some (lit ''fr''))"
  by (simp add: sample_defs language_code_of_def languages_def lit_def)

lemma sample_model_invoked:
  "model_invoked sample_env sample_settings sample_upload sample_state
     (Handle 4) (lit ''/tmp/tmpa1.wav'') (Some (lit ''fr''))"
  "model_invoked bad_audio_env sample_settings sample_upload sample_state
     (Handle 4) (lit ''/tmp/tmpa1.wav'') (Some (lit ''fr''))"
  "model_invoked locked_env sample_settings sample_upload sample_state
     (Handle 4) (lit ''/tmp/tmpa1.wav'') (Some (lit ''fr''))"
  "model_invoked silent_env sample_settings sample_upload sample_state
     (Handle 4) (lit ''/tmp/tmpa1.wav'') (Some (lit ''fr''))"
  using sample_scratch_created sample_language
  by (simp_all add: model_invoked_def) (simp_all add: sample_defs)

lemma sample_answers:
  "model_answer sample_env sample_settings sample_upload (Handle 4) (Some (lit ''fr'')) = Inr sample_result"
  "model_answer bad_audio_env sample_settings sample_upload (Handle 4) (Some (lit ''fr'')) = Inl (lit ''Invalid data found'')"
  "model_answer locked_env sample_settings sample_upload (Handle 4) (Some (lit ''fr'')) = Inr sample_result"
  "model_answer silent_env sample_settings sample_upload (Handle 4) (Some (lit ''fr'')) = Inr silent_result"
  by (simp_all add: model_answer_def sample_env_def bad_audio_env_def locked_env_def silent_env_def)

theorem errors_caught_at_boundary_witness:
  "error_texts (events_since sample_state
       (transcribe_audio sample_env unsupported_settings sample_upload sample_state)) =
     [failure_notice (lit ''Model not found'')]
   \<and> error_texts (events_since sample_state
       (transcribe_audio full_disk_env sample_settings sample_upload sample_state)) =
     [failure_notice (lit ''No space left on device'')]
   \<and> error_texts (events_since sample_state
       (transcribe_audio bad_audio_env sample_settings sample_upload sample_state)) =
     [failure_notice (lit ''Invalid data found'')]
   \<and> error_texts (events_since sample_state
       (transcribe_audio locked_env sample_settings sample_upload sample_state)) =
     [failure_notice (lit ''Permission denied'')]
   \<and> attempts LoadStep (events_since sample_state
       (transcribe_audio locked_env sample_settings sample_upload sample_state)) \<le> 1"
proof -
  have w: "write_error full_disk_env = Some (lit ''No space left on device'', ''RI'')"
    by (simp add: full_disk_env_def)
  have u: "unlink_error locked_env = Some (lit ''Permission denied'')"
    by (simp add: locked_env_def)
  note T = errors_caught_at_boundary
  have 1: "error_texts (events_since sample_state
       (transcribe_audio sample_env unsupported_settings sample_upload sample_state)) =
     [failure_notice (lit ''Model not found'')]"
    using T[of sample_env unsupported_settings sample_upload sample_state "lit ''Model not found''"]
      sample_load_refused by blast
  have 2: "error_texts (events_since sample_state
       (transcribe_audio full_disk_env sample_settings sample_upload sample_state)) =
     [failure_notice (lit ''No space left on device'')]"
    using T[of full_disk_env sample_settings sample_upload sample_state "lit ''No space left on device''"
          _ "Handle 4" "lit ''/tmp/tmpa1.wav''" "''RI''"]
      sample_scratch_created(2) w by blast
  have 3: "error_texts (events_since sample_state
       (transcribe_audio bad_audio_env sample_settings sample_upload sample_state)) =
     [failure_notice (lit ''Invalid data found'')]"
    using T[of bad_audio_env sample_settings sample_upload sample_state "lit ''Invalid data found''"
          _ "Handle 4" "lit ''/tmp/tmpa1.wav''" _ "Some (lit ''fr'')"]
      sample_model_invoked(2) sample_answers(2) by blast
  have 4: "error_texts (events_since sample_state
       (transcribe_audio locked_env sample_settings sample_upload sample_state)) =
     [failure_notice (lit ''Permission denied'')]"
    using T[of locked_env sample_settings sample_upload sample_state "lit ''Permission denied''"
          _ "Handle 4" "lit ''/tmp/tmpa1.wav''" _ "Some (lit ''fr'')" sample_result]
      sample_model_invoked(3) sample_answers(3) u by blast
  have 5: "attempts LoadStep (events_since sample_state
       (transcribe_audio locked_env sample_settings sample_upload sample_state)) \<le> 1"
    using T[of locked_env sample_settings sample_upload sample_state _ LoadStep] by blast
  from 1 2 3 4 5 show ?thesis by blast
qed


subsection \<open>Cleanup of the scratch file\<close>

lemma attempts_unlink_raised:
  "attempts UnlinkStep (evs @ [Error m, Info i]) = attempts UnlinkStep evs"
  by (simp add: attempts_def)

text \<open>
  C7. A run that completes has removed the scratch file, and the removal is the last step
  before the results are shown. When the model load, the write of the scratch file or the
  model invocation raises, no removal is attempted, and the scratch file, once created,
  is still on disk when the run ends.
\<close>

theorem scratch_file_cleanup:
  "(fst (try_block env cfg up st0) = Inr () \<longrightarrow>
      (\<exists>model q code result.
         events_since st0 (transcribe_audio env cfg up st0) =
           [Spinner (lit ''Loading Whisper model...'')] @ load_events st0 (model_size cfg)
           @ [CreateTemp (path_suffix env (up_name up)), WriteTemp q,
              Spinner (lit ''Transcribing... this may take a few minutes '' @ [0x23F3]),
              Transcribe model q code (task_type_of (translate_to_english cfg)), Unlink q]
           @ display_results env up result
         \<and> files (transcribe_audio env cfg up st0) q = None))
   \<and> (fst (load_whisper_model env (model_size cfg) st0) = Inl e \<longrightarrow>
        files (transcribe_audio env cfg up st0) = files st0
        \<and> attempts UnlinkStep (events_since st0 (transcribe_audio env cfg up st0)) = 0)
   \<and> (scratch_created env cfg up st0 model p \<and> write_error env = Some (e, partial) \<longrightarrow>
        files (transcribe_audio env cfg up st0) p = Some partial
        \<and> attempts UnlinkStep (events_since st0 (transcribe_audio env cfg up st0)) = 0)
   \<and> (model_invoked env cfg up st0 model p code \<and> model_answer env cfg up model code = Inl e \<longrightarrow>
        files (transcribe_audio env cfg up st0) p = Some (up_getvalue up)
        \<and> attempts UnlinkStep (events_since st0 (transcribe_audio env cfg up st0)) = 0)"
proof -
  let ?tb = "try_block env cfg up st0"
  let ?final = "transcribe_audio env cfg up st0"
  have done_case: "\<exists>model q code result.
         events_since st0 ?final =
           [Spinner (lit ''Loading Whisper model...'')] @ load_events st0 (model_size cfg)
           @ [CreateTemp (path_suffix env (up_name up)), WriteTemp q,
              Spinner (lit ''Transcribing... this may take a few minutes '' @ [0x23F3]),
              Transcribe model q code (task_type_of (translate_to_english cfg)), Unlink q]
           @ display_results env up result
         \<and> files ?final q = None"
    if d: "fst ?tb = Inr ()"
  proof -
    from success_inv[OF d] obtain model q code result where
      h: "fst (load_whisper_model env (model_size cfg) st0) = Inr model"
         "temp_name env (path_suffix env (up_name up)) = Inr q" "files st0 q = None"
         "write_error env = None"
         "language_code_of (selected_language cfg) = Inr code"
         "transcribe env model (Some (up_getvalue up)) code (task_type_of (translate_to_english cfg)) = Inr result"
         "unlink_error env = None"
      by blast
    have f: "?final = snd ?tb" using transcribe_audio_done[OF d] .
    have "events_since st0 ?final =
           [Spinner (lit ''Loading Whisper model...'')] @ load_events st0 (model_size cfg)
           @ [CreateTemp (path_suffix env (up_name up)), WriteTemp q,
              Spinner (lit ''Transcribing... this may take a few minutes '' @ [0x23F3]),
              Transcribe model q code (task_type_of (translate_to_english cfg)), Unlink q]
           @ display_results env up result"
      unfolding f by (rule events_since_append) (use run_success(2)[OF h] in simp)
    moreover have "files ?final q = None"
      unfolding f using run_success(3)[OF h] .
    ultimately show ?thesis by blast
  qed
  have load_case: "files ?final = files st0 \<and> attempts UnlinkStep (events_since st0 ?final) = 0"
    if r: "fst (load_whisper_model env (model_size cfg) st0) = Inl e"
  proof -
    note R = run_load_raises[OF r, of up]
    have f: "?final = except_handler e (snd ?tb)" using transcribe_audio_raised[OF R(1)] .
    have "events_since st0 ?final =
            [Spinner (lit ''Loading Whisper model...''), LoadModel (model_size cfg)] @
            [Error (failure_notice e),
             Info (lit ''Try reinstalling dependencies: `pip install openai-whisper streamlit`'')]"
      unfolding f by (rule events_since_append) (simp add: except_handler_log R(2))
    then have "attempts UnlinkStep (events_since st0 ?final) = 0"
      by (simp add: attempts_def)
    moreover have "files ?final = files st0"
      unfolding f by (simp add: except_handler_files R(3))
    ultimately show ?thesis by simp
  qed
  have write_case: "files ?final p = Some partial \<and> attempts UnlinkStep (events_since st0 ?final) = 0"
    if w: "scratch_created env cfg up st0 model p \<and> write_error env = Some (e, partial)"
  proof -
    from w have h: "fst (load_whisper_model env (model_size cfg) st0) = Inr model"
         "temp_name env (path_suffix env (up_name up)) = Inr p" "files st0 p = None"
         "write_error env = Some (e, partial)"
      by (simp_all add: scratch_created_def)
    note R = run_write_raises[OF h]
    have f: "?final = except_handler e (snd ?tb)" using transcribe_audio_raised[OF R(1)] .
    have "events_since st0 ?final =
            ([Spinner (lit ''Loading Whisper model...'')] @ load_events st0 (model_size cfg)
             @ [CreateTemp (path_suffix env (up_name up)), WriteTemp p]) @
            [Error (failure_notice e),
             Info (lit ''Try reinstalling dependencies: `pip install openai-whisper streamlit`'')]"
      unfolding f by (rule events_since_append) (simp add: except_handler_log R(2))
    then have "attempts UnlinkStep (events_since st0 ?final) = 0"
      using attempts_unlink_load_events[of st0 "model_size cfg"] by (simp add: attempts_def)
    moreover have "files ?final p = Some partial"
      unfolding f by (simp add: except_handler_files R(3))
    ultimately show ?thesis by simp
  qed
  have invoke_case: "files ?final p = Some (up_getvalue up) \<and> attempts UnlinkStep (events_since st0 ?final) = 0"
    if w: "model_invoked env cfg up st0 model p code \<and> model_answer env cfg up model code = Inl e"
  proof -
    from w have h: "fst (load_whisper_model env (model_size cfg) st0) = Inr model"
         "temp_name env (path_suffix env (up_name up)) = Inr p" "files st0 p = None"
         "write_error env = None"
         "language_code_of (selected_language cfg) = Inr code"
         "transcribe env model (Some (up_getvalue up)) code (task_type_of (translate_to_english cfg)) = Inl e"
      by (simp_all add: scratch_created_def model_invoked_def model_answer_def)
    note R = run_transcribe_raises[OF h]
    have f: "?final = except_handler e (snd ?tb)" using transcribe_audio_raised[OF R(1)] .
    have "events_since st0 ?final =
            ([Spinner (lit ''Loading Whisper model...'')] @ load_events st0 (model_size cfg)
             @ [CreateTemp (path_suffix env (up_name up)), WriteTemp p,
                Spinner (lit ''Transcribing... this may take a few minutes '' @ [0x23F3]),
                Transcribe model p code (task_type_of (translate_to_english cfg))]) @
            [Error (failure_notice e),
             Info (lit ''Try reinstalling dependencies: `pip install openai-whisper streamlit`'')]"
      unfolding f by (rule events_since_append) (simp add: except_handler_log R(2))
    then have "attempts UnlinkStep (events_since st0 ?final) = 0"
      using attempts_unlink_load_events[of st0 "model_size cfg"] by (simp add: attempts_def)
    moreover have "files ?final p = Some (up_getvalue up)"
      unfolding f by (simp add: except_handler_files R(3))
    ultimately show ?thesis by simp
  qed
  from done_case load_case write_case invoke_case show ?thesis by blast
qed


lemma sample_run_completes:
  "fst (try_block sample_env sample_settings sample_upload sample_state) = Inr ()"
  "fst (try_block silent_env sample_settings sample_upload sample_state) = Inr ()"
proof -
  have u: "unlink_error sample_env = None" "unlink_error silent_env = None"
    by (simp_all add: sample_env_def silent_env_def)
  show "fst (try_block sample_env sample_settings sample_upload sample_state) = Inr ()"
    using run_success(1)[of sample_env sample_settings sample_state "Handle 4" sample_upload
        "lit ''/tmp/tmpa1.wav''" "Some (lit ''fr'')" sample_result]
      sample_model_invoked(1) sample_answers(1) u(1)
    by (simp add: model_invoked_def scratch_created_def model_answer_def)
  show "fst (try_block silent_env sample_settings sample_upload sample_state) = Inr ()"
    using run_success(1)[of silent_env sample_settings sample_state "Handle 4" sample_upload
        "lit ''/tmp/tmpa1.wav''" "Some (lit ''fr'')" silent_result]
      sample_model_invoked(4) sample_answers(4) u(2)
    by (simp add: model_invoked_def scratch_created_def model_answer_def)
qed

theorem scratch_file_cleanup_witness:
  "fst (try_block sample_env sample_settings sample_upload sample_state) = Inr ()
   \<and> (\<exists>model q code result.
         events_since sample_state
           (transcribe_audio sample_env sample_settings sample_upload sample_state) =
           [Spinner (lit ''Loading Whisper model...'')]
           @ load_events sample_state (model_size sample_settings)
           @ [CreateTemp (path_suffix sample_env (up_name sample_upload)), WriteTemp q,
              Spinner (lit ''Transcribing... this may take a few minutes '' @ [0x23F3]),
              Transcribe model q code (task_type_of (translate_to_english sample_settings)),
              Unlink q]
           @ display_results sample_env sample_upload result
         \<and> files (transcribe_audio sample_env sample_settings sample_upload sample_state) q = None)
   \<and> files (transcribe_audio sample_env unsupported_settings sample_upload sample_state) =
       files sample_state
   \<and> files (transcribe_audio full_disk_env sample_settings sample_upload sample_state)
         (lit ''/tmp/tmpa1.wav'') = Some ''RI''
   \<and> files (transcribe_audio bad_audio_env sample_settings sample_upload sample_state)
         (lit ''/tmp/tmpa1.wav'') = Some ''RIFF''
   \<and> attempts UnlinkStep (events_since sample_state
         (transcribe_audio bad_audio_env sample_settings sample_upload sample_state)) = 0"
proof -
  have w: "write_error full_disk_env = Some (lit ''No space left on device'', ''RI'')"
    by (simp add: full_disk_env_def)
  have g: "up_getvalue sample_upload = ''RIFF''"
    by (simp add: sample_upload_def)
  note T = scratch_file_cleanup
  have 1: "\<exists>model q code result.
         events_since sample_state
           (transcribe_audio sample_env sample_settings sample_upload sample_state) =
           [Spinner (lit ''Loading Whisper model...'')]
           @ load_events sample_state (model_size sample_settings)
           @ [CreateTemp (path_suffix sample_env (up_name sample_upload)), WriteTemp q,
              Spinner (lit ''Transcribing... this may take a few minutes '' @ [0x23F3]),
              Transcribe model q code (task_type_of (translate_to_english sample_settings)),
              Unlink q]
           @ display_results sample_env sample_upload result
         \<and> files (transcribe_audio sample_env sample_settings sample_upload sample_state) q = None"
    using T[of sample_env sample_settings sample_upload sample_state] sample_run_completes(1)
    by blast
  have 2: "files (transcribe_audio sample_env unsupported_settings sample_upload sample_state) =
       files sample_state"
    using T[of sample_env unsupported_settings sample_upload sample_state "lit ''Model not found''"]
      sample_load_refused by blast
  have 3: "files (transcribe_audio full_disk_env sample_settings sample_upload sample_state)
         (lit ''/tmp/tmpa1.wav'') = Some ''RI''"
    using T[of full_disk_env sample_settings sample_upload sample_state "lit ''No space left on device''"
          "Handle 4" "lit ''/tmp/tmpa1.wav''" "''RI''"]
      sample_scratch_created(2) w by blast
  have 4: "files (transcribe_audio bad_audio_env sample_settings sample_upload sample_state)
         (lit ''/tmp/tmpa1.wav'') = Some (up_getvalue sample_upload)
     \<and> attempts UnlinkStep (events_since sample_state
         (transcribe_audio bad_audio_env sample_settings sample_upload sample_state)) = 0"
    using T[of bad_audio_env sample_settings sample_upload sample_state "lit ''Invalid data found''"
          "Handle 4" "lit ''/tmp/tmpa1.wav''" _ "Some (lit ''fr'')"]
      sample_model_invoked(2) sample_answers(2) by blast
  note 5 = 4[unfolded g]
  from sample_run_completes(1) 1 2 3 5 show ?thesis by blast
qed

subsection \<open>What the model is invoked with\<close>







subsection \<open>The model cache across calls\<close>

text \<open>
  C4. A call for a size that has no entry loads the model once, returns the handle and
  stores it under the size; any later call for that size, whatever calls came in between
  and whatever the loader would do then, returns the same handle and leaves the state,
  and so the log of loads, as it is.
\<close>

theorem model_loaded_once:
  assumes "cache st msize = None" and "load_model env msize = Inr h"
  shows "fst (load_whisper_model env msize st) = Inr h
     \<and> cache (snd (load_whisper_model env msize st)) msize = Some h
     \<and> log (snd (load_whisper_model env msize st)) = log st @ [LoadModel msize]
     \<and> load_whisper_model env' msize (after_calls cs (snd (load_whisper_model env msize st)))
         = (Inr h, after_calls cs (snd (load_whisper_model env msize st)))"
proof -
  let ?st1 = "snd (load_whisper_model env msize st)"
  have 1: "fst (load_whisper_model env msize st) = Inr h"
    using assms by (simp add: step_defs)
  have 2: "cache ?st1 msize = Some h"
    using assms by (simp add: step_defs)
  have 3: "log ?st1 = log st @ [LoadModel msize]"
    using assms by (simp add: step_defs)
  have 4: "load_whisper_model env' msize (after_calls cs ?st1) = (Inr h, after_calls cs ?st1)"
    by (rule load_hit) (rule after_calls_keeps_entry[OF 2])
  from 1 2 3 4 show ?thesis by blast
qed

lemma sample_base_loads:
  "cache sample_state (lit ''base'') = None"
  "load_model sample_env (lit ''base'') = Inr (Handle 4)"
  "load_model sample_env (lit ''huge'') = Inl (lit ''Model not found'')"
  "cache sample_state (lit ''huge'') = None"
  by (simp_all add: sample_defs lit_def)

theorem model_loaded_once_witness:
  "fst (load_whisper_model sample_env (lit ''base'') sample_state) = Inr (Handle 4)
   \<and> fst (load_whisper_model bad_audio_env (lit ''base'')
            (snd (load_whisper_model sample_env (lit ''base'') sample_state))) = Inr (Handle 4)
   \<and> log (snd (load_whisper_model bad_audio_env (lit ''base'')
            (snd (load_whisper_model sample_env (lit ''base'') sample_state))))
       = [LoadModel (lit ''base'')]
   \<and> fst (load_whisper_model sample_env (lit ''base'')
            (after_calls [(sample_env, lit ''tiny''), (sample_env, lit ''huge'')]
               (snd (load_whisper_model sample_env (lit ''base'') sample_state)))) = Inr (Handle 4)"
proof -
  note T = model_loaded_once[OF sample_base_loads(1,2)]
  have l: "log sample_state = []" by (simp add: sample_state_def)
  have 1: "fst (load_whisper_model sample_env (lit ''base'') sample_state) = Inr (Handle 4)"
    using T by blast
  have 2: "load_whisper_model bad_audio_env (lit ''base'')
            (snd (load_whisper_model sample_env (lit ''base'') sample_state))
         = (Inr (Handle 4), snd (load_whisper_model sample_env (lit ''base'') sample_state))"
    using T[of bad_audio_env "[]"] by simp
  have 3: "log (snd (load_whisper_model sample_env (lit ''base'') sample_state)) = [LoadModel (lit ''base'')]"
    using T l by simp
  have 4: "fst (load_whisper_model sample_env (lit ''base'')
            (after_calls [(sample_env, lit ''tiny''), (sample_env, lit ''huge'')]
               (snd (load_whisper_model sample_env (lit ''base'') sample_state)))) = Inr (Handle 4)"
    using T[of sample_env "[(sample_env, lit ''tiny''), (sample_env, lit ''huge'')]"]
    by (simp only: fst_conv)
  from 1 2 3 4 show ?thesis by simp
qed

text \<open>
  C5. When the load raises, the call raises the same exception and the cache is as it was,
  without an entry for the size; the request that made the call ends with that exception.
  A later call for the size runs the loader again and returns what it gives then.
\<close>

theorem failed_load_leaves_no_entry:
  assumes "cache st msize = None" and "load_model env msize = Inl e"
  shows "fst (load_whisper_model env msize st) = Inl e
     \<and> cache (snd (load_whisper_model env msize st)) = cache st
     \<and> cache (snd (load_whisper_model env msize st)) msize = None
     \<and> (model_size cfg = msize \<longrightarrow> fst (try_block env cfg up st) = Inl e)
     \<and> fst (load_whisper_model env' msize (snd (load_whisper_model env msize st)))
         = load_model env' msize
     \<and> log (snd (load_whisper_model env' msize (snd (load_whisper_model env msize st))))
         = log st @ [LoadModel msize, LoadModel msize]"
proof -
  let ?st1 = "snd (load_whisper_model env msize st)"
  have 1: "fst (load_whisper_model env msize st) = Inl e"
    using assms by (simp add: step_defs)
  have 2: "cache ?st1 = cache st"
    using assms by (simp add: step_defs)
  have 3: "cache ?st1 msize = None"
    using 2 assms(1) by simp
  have 4: "fst (try_block env cfg up st) = Inl e" if "model_size cfg = msize"
    using run_load_raises(1)[of env cfg st e up] 1 that by simp
  have 5: "fst (load_whisper_model env' msize ?st1) = load_model env' msize"
    using 3 by (cases "load_model env' msize") (simp_all add: step_defs)
  have 6: "log (snd (load_whisper_model env' msize ?st1)) = log st @ [LoadModel msize, LoadModel msize]"
    using 3 assms by (cases "load_model env' msize") (simp_all add: step_defs)
  from 1 2 3 4 5 6 show ?thesis by blast
qed

theorem failed_load_leaves_no_entry_witness:
  "fst (load_whisper_model sample_env (lit ''huge'') sample_state) = Inl (lit ''Model not found'')
   \<and> cache (snd (load_whisper_model sample_env (lit ''huge'') sample_state)) (lit ''huge'') = None
   \<and> fst (try_block sample_env unsupported_settings sample_upload sample_state)
       = Inl (lit ''Model not found'')
   \<and> log (snd (load_whisper_model sample_env (lit ''huge'')
            (snd (load_whisper_model sample_env (lit ''huge'') sample_state))))
       = [LoadModel (lit ''huge''), LoadModel (lit ''huge'')]"
proof -
  note T = failed_load_leaves_no_entry[OF sample_base_loads(4,3), of unsupported_settings sample_upload sample_env]
  have l: "log sample_state = []" by (simp add: sample_state_def)
  have m: "model_size unsupported_settings = lit ''huge''"
    by (simp add: unsupported_settings_def sample_settings_def)
  from T l m sample_base_loads(4) show ?thesis by simp
qed


subsection \<open>No segments\<close>

lemma events_since_done:
  assumes "model_invoked env cfg up st0 model p code"
    and "model_answer env cfg up model code = Inr result"
    and "unlink_error env = None"
  shows "fst (try_block env cfg up st0) = Inr ()"
    and "events_since st0 (transcribe_audio env cfg up st0) =
           [Spinner (lit ''Loading Whisper model...'')] @ load_events st0 (model_size cfg)
           @ [CreateTemp (path_suffix env (up_name up)), WriteTemp p,
              Spinner (lit ''Transcribing... this may take a few minutes '' @ [0x23F3]),
              Transcribe model p code (task_type_of (translate_to_english cfg)), Unlink p]
           @ display_results env up result"
proof -
  from assms have h: "fst (load_whisper_model env (model_size cfg) st0) = Inr model"
         "temp_name env (path_suffix env (up_name up)) = Inr p" "files st0 p = None"
         "write_error env = None"
         "language_code_of (selected_language cfg) = Inr code"
         "transcribe env model (Some (up_getvalue up)) code (task_type_of (translate_to_english cfg)) = Inr result"
         "unlink_error env = None"
    by (simp_all add: scratch_created_def model_invoked_def model_answer_def)
  show d: "fst (try_block env cfg up st0) = Inr ()" using run_success(1)[OF h] .
  show "events_since st0 (transcribe_audio env cfg up st0) =
           [Spinner (lit ''Loading Whisper model...'')] @ load_events st0 (model_size cfg)
           @ [CreateTemp (path_suffix env (up_name up)), WriteTemp p,
              Spinner (lit ''Transcribing... this may take a few minutes '' @ [0x23F3]),
              Transcribe model p code (task_type_of (translate_to_english cfg)), Unlink p]
           @ display_results env up result"
    unfolding transcribe_audio_done[OF d]
    by (rule events_since_append) (use run_success(2)[OF h] in simp)
qed

lemma download_data_srt_display:
  "download_data ([0x1F3AC] @ lit '' Download as SRT'') (display_results env up r) = [to_subtitle_text r]"
  by (simp add: display_results_def Let_def download_data_markdown)

text \<open>
  C9. For a result without segments the subtitle text is the empty string; the results
  shown still hold the subtitle download button, with the empty string as its data, and
  no error notice. A run whose model answers with such a result completes.
\<close>

theorem no_segments_empty_subtitles:
  assumes "res_segments r = []"
  shows "to_subtitle_text r = []
     \<and> download_data ([0x1F3AC] @ lit '' Download as SRT'') (display_results env up r) = [[]]
     \<and> error_texts (display_results env up r) = []
     \<and> (model_invoked env cfg up st0 model p code \<and> model_answer env cfg up model code = Inr r
          \<and> unlink_error env = None \<longrightarrow>
          fst (try_block env cfg up st0) = Inr ()
          \<and> download_data ([0x1F3AC] @ lit '' Download as SRT'')
               (events_since st0 (transcribe_audio env cfg up st0)) = [[]]
          \<and> error_texts (events_since st0 (transcribe_audio env cfg up st0)) = [])"
proof -
  have 1: "to_subtitle_text r = []"
    using assms by (simp add: to_subtitle_text_def)
  have 2: "download_data ([0x1F3AC] @ lit '' Download as SRT'') (display_results env up r) = [[]]"
    by (simp only: download_data_srt_display 1)
  have 3: "error_texts (display_results env up r) = []"
    by (rule error_texts_display)
  have 4: "fst (try_block env cfg up st0) = Inr ()
          \<and> download_data ([0x1F3AC] @ lit '' Download as SRT'')
               (events_since st0 (transcribe_audio env cfg up st0)) = [[]]
          \<and> error_texts (events_since st0 (transcribe_audio env cfg up st0)) = []"
    if h: "model_invoked env cfg up st0 model p code \<and> model_answer env cfg up model code = Inr r
          \<and> unlink_error env = None"
  proof -
    from h have a: "model_invoked env cfg up st0 model p code"
      and b: "model_answer env cfg up model code = Inr r" and c: "unlink_error env = None"
      by simp_all
    note R = events_since_done[OF a b c]
    have "download_data ([0x1F3AC] @ lit '' Download as SRT'')
               (events_since st0 (transcribe_audio env cfg up st0)) = [[]]"
      unfolding R(2) using 2 by (simp add: download_data_append download_data_load_events)
    moreover have "error_texts (events_since st0 (transcribe_audio env cfg up st0)) = []"
      unfolding R(2) by (simp add: error_texts_append error_texts_load_events 3)
    ultimately show ?thesis using R(1) by simp
  qed
  from 1 2 3 4 show ?thesis by blast
qed

theorem no_segments_empty_subtitles_witness:
  "res_segments silent_result = []
   \<and> to_subtitle_text silent_result = []
   \<and> fst (try_block silent_env sample_settings sample_upload sample_state) = Inr ()
   \<and> download_data ([0x1F3AC] @ lit '' Download as SRT'')
        (events_since sample_state
           (transcribe_audio silent_env sample_settings sample_upload sample_state)) = [[]]
   \<and> error_texts (events_since sample_state
           (transcribe_audio silent_env sample_settings sample_upload sample_state)) = []"
proof -
  have e: "res_segments silent_result = []" by (simp add: silent_result_def)
  have u: "unlink_error silent_env = None" by (simp add: silent_env_def sample_env_def)
  from no_segments_empty_subtitles[OF e, of silent_env sample_upload sample_settings sample_state
      "Handle 4" "lit ''/tmp/tmpa1.wav''" "Some (lit ''fr'')"]
    sample_model_invoked(4) sample_answers(4) u e
  show ?thesis by blast
qed

subsection \<open>Stripped and unstripped text\<close>

lemma subtitle_text_blocks:
  "to_subtitle_text r =
   concat (map (\<lambda>k. srt_block (int k + 1) (res_segments r ! k)) [0..<length (res_segments r)])"
proof -
  have b: "unlines (block_lines (Suc k) seg) = srt_block (int k + 1) seg" for k seg
    using srt_block_unlines[of "Suc k" seg] by (simp add: add.commute)
  show ?thesis
    using srt_loop_blocks[of 0 "res_segments r" "[]"]
    by (simp add: to_subtitle_text_def b comp_def)
qed

lemma subtitle_text_lines:
  assumes "\<forall>seg \<in> set (res_segments r). 10 \<notin> set (strip (seg_text seg))"
  shows "split_lines (to_subtitle_text r) = concat (spec_subtitle_blocks (res_segments r))"
proof -
  let ?segs = "res_segments r"
  have main: "to_subtitle_text r = concat (map unlines (spec_subtitle_blocks ?segs))"
    using srt_loop_blocks[of 0 ?segs "[]"]
    by (simp add: to_subtitle_text_def spec_subtitle_blocks_def)
  have "\<forall>l \<in> set (concat (spec_subtitle_blocks ?segs)). 10 \<notin> set l"
    using assms by (auto simp add: spec_subtitle_blocks_def dest!: block_lines_no_newline[rotated])
  then show ?thesis
    using split_unlines[of "concat (spec_subtitle_blocks ?segs)" "[]"]
    by (simp add: main concat_unlines split_lines_def)
qed

lemma concat_nth_four:
  "\<forall>b \<in> set bs. length b = 4 \<Longrightarrow> k < length bs \<Longrightarrow> j < 4 \<Longrightarrow>
   concat bs ! (4 * k + j) = bs ! k ! j"
proof (induction bs arbitrary: k)
  case Nil
  then show ?case by simp
next
  case (Cons b bs)
  then have lb: "length b = 4" and rest: "\<forall>b \<in> set bs. length b = 4" by simp_all
  show ?case
  proof (cases k)
    case 0
    then show ?thesis using lb Cons.prems(3) by (simp add: nth_append)
  next
    case (Suc k')
    then have k': "k' < length bs" using Cons.prems(2) by simp
    have "concat (b # bs) ! (4 * k + j) = concat bs ! (4 * k' + j)"
      using lb Suc by (simp add: nth_append)
    then show ?thesis using Cons.IH[OF rest k' Cons.prems(3)] Suc by simp
  qed
qed

lemma subtitle_text_line:
  assumes "\<forall>seg \<in> set (res_segments r). 10 \<notin> set (strip (seg_text seg))"
    and "k < length (res_segments r)"
  shows "split_lines (to_subtitle_text r) ! (4 * k + 2) = strip (seg_text (res_segments r ! k))"
proof -
  let ?bs = "spec_subtitle_blocks (res_segments r)"
  have four: "\<forall>b \<in> set ?bs. length b = 4"
    by (auto simp add: spec_subtitle_blocks_def block_lines_def)
  have k: "k < length ?bs" using assms(2) by (simp add: spec_subtitle_blocks_def)
  have "concat ?bs ! (4 * k + 2) = ?bs ! k ! 2"
    by (rule concat_nth_four[OF four k]) simp
  also have "\<dots> = strip (seg_text (res_segments r ! k))"
    using assms(2) by (simp add: spec_subtitle_blocks_def block_lines_def)
  finally show ?thesis by (simp add: subtitle_text_lines[OF assms(1)])
qed

text \<open>
  C10. The subtitle output, which is the data of the subtitle download, is the
  concatenation of the blocks of the segments, and the text line of a block is the
  segment's text without its leading and trailing white space: when no stripped text
  contains a newline, line 4k+2 of the output (counting from 0) is the stripped text of
  the k-th segment. The line of the on-screen segment view ends with the segment's text
  as it is, and the plain-text download is the full text as it is. So the subtitle text
  differs from the displayed text exactly when the segment's text begins or ends with
  white space.
\<close>

theorem subtitle_text_is_stripped:
  "srt_block i seg =
     str_int i @ [10] @ srt_time (seg_start seg) @ lit '' --> '' @ srt_time (seg_end seg) @ [10]
     @ strip (seg_text seg) @ [10, 10]
   \<and> to_subtitle_text r =
       concat (map (\<lambda>k. srt_block (int k + 1) (res_segments r ! k)) [0..<length (res_segments r)])
   \<and> download_data ([0x1F3AC] @ lit '' Download as SRT'') (display_results env up r) =
       [to_subtitle_text r]
   \<and> ((\<forall>seg \<in> set (res_segments r). 10 \<notin> set (strip (seg_text seg))) \<and> k < length (res_segments r) \<longrightarrow>
        split_lines (to_subtitle_text r) ! (4 * k + 2) = strip (seg_text (res_segments r ! k)))
   \<and> (\<exists>a b. seg_text seg = a @ strip (seg_text seg) @ b
         \<and> (\<forall>c \<in> set a. isspace c) \<and> (\<forall>c \<in> set b. isspace c))
   \<and> (strip (seg_text seg) \<noteq> [] \<longrightarrow>
        \<not> isspace (hd (strip (seg_text seg))) \<and> \<not> isspace (last (strip (seg_text seg))))
   \<and> segment_markdown seg =
       lit ''**['' @ view_time (seg_start seg) @ lit '' - '' @ view_time (seg_end seg) @ lit '']** ''
       @ seg_text seg
   \<and> (seg \<in> set (res_segments r) \<longrightarrow>
        Markdown (segment_markdown seg) \<in> set (display_results env up r))
   \<and> to_plain_text r = res_text r
   \<and> download_data ([0x1F4E5] @ lit '' Download as TXT'') (display_results env up r) = [res_text r]
   \<and> (strip (seg_text seg) \<noteq> seg_text seg \<longleftrightarrow>
        seg_text seg \<noteq> [] \<and> (isspace (hd (seg_text seg)) \<or> isspace (last (seg_text seg))))"
proof -
  have 1: "srt_block i seg =
     str_int i @ [10] @ srt_time (seg_start seg) @ lit '' --> '' @ srt_time (seg_end seg) @ [10]
     @ strip (seg_text seg) @ [10, 10]"
    by (simp add: srt_block_def)
  have 2: "segment_markdown seg =
       lit ''**['' @ view_time (seg_start seg) @ lit '' - '' @ view_time (seg_end seg) @ lit '']** ''
       @ seg_text seg"
    by (simp add: segment_markdown_def)
  have 3: "Markdown (segment_markdown seg) \<in> set (display_results env up r)"
    if "seg \<in> set (res_segments r)"
    using that by (simp add: display_results_def Let_def)
  have 4: "to_plain_text r = res_text r"
    by (simp add: to_plain_text_def)
  have 5: "strip (seg_text seg) \<noteq> seg_text seg \<longleftrightarrow>
        seg_text seg \<noteq> [] \<and> (isspace (hd (seg_text seg)) \<or> isspace (last (seg_text seg)))"
    using strip_unchanged_iff[of "seg_text seg"] by blast
  have 6: "split_lines (to_subtitle_text r) ! (4 * k + 2) = strip (seg_text (res_segments r ! k))"
    if "(\<forall>seg \<in> set (res_segments r). 10 \<notin> set (strip (seg_text seg))) \<and> k < length (res_segments r)"
    using that subtitle_text_line[of r k] by blast
  have 7: "download_data ([0x1F4E5] @ lit '' Download as TXT'') (display_results env up r) = [res_text r]"
    by (simp add: display_results_def Let_def download_data_markdown to_plain_text_def)
  from 1 subtitle_text_blocks[of r] download_data_srt_display[of env up r] 6
    strip_decompose[of "seg_text seg"] strip_ends[of "seg_text seg"] 2 3 4 7 5
  show ?thesis by blast
qed

theorem subtitle_text_is_stripped_witness:
  "strip (seg_text (spoken_segments ! 1)) = lit ''world''
   \<and> seg_text (spoken_segments ! 1) = lit '' world ''
   \<and> strip (seg_text (spoken_segments ! 1)) \<noteq> seg_text (spoken_segments ! 1)
   \<and> split_lines (to_subtitle_text spoken_result) ! 6 = lit ''world''
   \<and> download_data ([0x1F3AC] @ lit '' Download as SRT'')
        (display_results sample_env sample_upload spoken_result) = [to_subtitle_text spoken_result]
   \<and> Markdown (segment_markdown (spoken_segments ! 1))
        \<in> set (display_results sample_env sample_upload spoken_result)
   \<and> segment_markdown (spoken_segments ! 1) = lit ''**[0:02 - 62:05]**  world ''"
proof -
  let ?seg = "spoken_segments ! 1"
  note T = subtitle_text_is_stripped[of _ ?seg spoken_result sample_env sample_upload 1]
  have t: "seg_text ?seg = lit '' world ''"
    by (simp add: spoken_segments_def)
  have s: "strip (seg_text ?seg) = lit ''world''"
    unfolding t by code_simp
  have w: "seg_text ?seg \<noteq> [] \<and> isspace (hd (seg_text ?seg))"
    unfolding t by code_simp
  have m: "?seg \<in> set (res_segments spoken_result)"
    by (simp add: spoken_result_def spoken_segments_def)
  have v: "segment_markdown ?seg = lit ''**[0:02 - 62:05]**  world ''"
    by code_simp
  have n: "\<forall>seg \<in> set (res_segments spoken_result). 10 \<notin> set (strip (seg_text seg))"
    by code_simp
  have k: "(1::nat) < length (res_segments spoken_result)" "res_segments spoken_result ! 1 = ?seg"
    by (simp_all add: spoken_result_def spoken_segments_def)
  have 3: "strip (seg_text ?seg) \<noteq> seg_text ?seg"
    using T w by blast
  have 4: "Markdown (segment_markdown ?seg) \<in> set (display_results sample_env sample_upload spoken_result)"
    using T m by blast
  have e: "split_lines (to_subtitle_text spoken_result) ! (4 * 1 + 2) =
        strip (seg_text (res_segments spoken_result ! 1))"
    using T n k(1) by blast
  have 5: "split_lines (to_subtitle_text spoken_result) ! 6 = lit ''world''"
    using e[unfolded k(2) s] by simp
  have 6: "download_data ([0x1F3AC] @ lit '' Download as SRT'')
        (display_results sample_env sample_upload spoken_result) = [to_subtitle_text spoken_result]"
    using T by blast
  from s t 3 5 6 4 v show ?thesis by blast
qed

end
